theory Spec2Isabelle
  imports Main "HOL-Library.Word" "HOL-Library.Sublist"
begin

unbundle bit_operations_syntax

section \<open>Go standard-library functions used by the controllers\<close>

text \<open>
  Go strings are byte sequences; \<^typ>\<open>string\<close> is a list of 8-bit characters.
  The functions of this section are the library functions that
  \<^verbatim>\<open>controllers/spec.go\<close> calls (\<^verbatim>\<open>strings.Replace\<close>,
  \<^verbatim>\<open>strings.ToLower\<close>, \<^verbatim>\<open>fmt.Sprintf\<close> with \<^verbatim>\<open>%s\<close> verbs,
  \<^verbatim>\<open>encoding/hex\<close>, \<^verbatim>\<open>crypto/sha256\<close>).
\<close>

text \<open>
  \<^verbatim>\<open>strings.Replace(s, old, new, -1)\<close>: every non-overlapping occurrence of
  \<open>old\<close> in \<open>s\<close>, scanning from the left, is replaced by \<open>new\<close>. The source only
  passes one-character patterns; for the empty pattern (where Go inserts \<open>new\<close>
  around every rune) this model leaves \<open>s\<close> as it is.
\<close>

function Replace_all :: "string \<Rightarrow> string \<Rightarrow> string \<Rightarrow> string" where
  "Replace_all [] old new = []"
| "Replace_all (c # s) old new =
     (if old \<noteq> [] \<and> prefix old (c # s)
      then new @ Replace_all (drop (length old) (c # s)) old new
      else c # Replace_all s old new)"
  by pat_completeness auto
termination
  by (relation "measure (\<lambda>(s, old, new). length s)") (auto simp: neq_Nil_conv)

text \<open>
  \<^verbatim>\<open>strings.ToLower\<close> as Go computes it on an ASCII string: the bytes
  \<open>A\<close>..\<open>Z\<close> are moved to \<open>a\<close>..\<open>z\<close>, every other byte is kept. On a
  string with bytes beyond ASCII Go lowers the Unicode letters of its UTF-8 decoding,
  which this model does not follow; the kinds of Kubernetes are ASCII identifiers.
\<close>

definition ToLower :: "string \<Rightarrow> string" where
  "ToLower s =
     map (\<lambda>c. if 65 \<le> (of_char c :: nat) \<and> (of_char c :: nat) \<le> 90
              then char_of ((of_char c :: nat) + 32) else c) s"

type_synonym byte = "8 word"
type_synonym uint32 = "32 word"
type_synonym int32 = "32 word"
type_synonym int64 = "64 word"

text \<open>\<^verbatim>\<open>[]byte(s)\<close>: the bytes of a string.\<close>

definition bytes_of :: "string \<Rightarrow> byte list" where
  "bytes_of s = map (\<lambda>c. word_of_nat (of_char c)) s"

text \<open>
  \<^verbatim>\<open>hex.EncodeToString\<close>: two characters of \<^verbatim>\<open>hextable\<close> for each byte, the
  high nibble first.
\<close>

definition hextable :: string where
  "hextable = ''0123456789abcdef''"

definition EncodeToString :: "byte list \<Rightarrow> string" where
  "EncodeToString src =
     concat (map (\<lambda>v. [hextable ! unat (drop_bit 4 v), hextable ! unat (v AND 0x0f)]) src)"

subsection \<open>\<^verbatim>\<open>crypto/sha256\<close>\<close>

text \<open>
  \<^verbatim>\<open>sha256.Sum256\<close> as the Go library computes it (FIPS 180-4): the message is
  padded with \<open>0x80\<close>, zero bytes up to 56 modulo 64 and its length in bits as a
  big-endian 64-bit number; every 64-byte block is expanded to 64 words and run through
  64 rounds; the digest is the eight state words, big-endian.
\<close>

text \<open>The round constants, eight rounds to a row.\<close>

definition sha256_K :: "uint32 list" where
  "sha256_K = concat
    [[0x428a2f98, 0x71374491, 0xb5c0fbcf, 0xe9b5dba5, 0x3956c25b, 0x59f111f1, 0x923f82a4, 0xab1c5ed5],
     [0xd807aa98, 0x12835b01, 0x243185be, 0x550c7dc3, 0x72be5d74, 0x80deb1fe, 0x9bdc06a7, 0xc19bf174],
     [0xe49b69c1, 0xefbe4786, 0x0fc19dc6, 0x240ca1cc, 0x2de92c6f, 0x4a7484aa, 0x5cb0a9dc, 0x76f988da],
     [0x983e5152, 0xa831c66d, 0xb00327c8, 0xbf597fc7, 0xc6e00bf3, 0xd5a79147, 0x06ca6351, 0x14292967],
     [0x27b70a85, 0x2e1b2138, 0x4d2c6dfc, 0x53380d13, 0x650a7354, 0x766a0abb, 0x81c2c92e, 0x92722c85],
     [0xa2bfe8a1, 0xa81a664b, 0xc24b8b70, 0xc76c51a3, 0xd192e819, 0xd6990624, 0xf40e3585, 0x106aa070],
     [0x19a4c116, 0x1e376c08, 0x2748774c, 0x34b0bcb5, 0x391c0cb3, 0x4ed8aa4a, 0x5b9cca4f, 0x682e6ff3],
     [0x748f82ee, 0x78a5636f, 0x84c87814, 0x8cc70208, 0x90befffa, 0xa4506ceb, 0xbef9a3f7, 0xc67178f2]]"

definition sha256_init :: "uint32 list" where
  "sha256_init = [0x6a09e667, 0xbb67ae85, 0x3c6ef372, 0xa54ff53a,
                  0x510e527f, 0x9b05688c, 0x1f83d9ab, 0x5be0cd19]"

definition be_uint32 :: "byte list \<Rightarrow> uint32" where
  "be_uint32 bs = foldl (\<lambda>acc b. push_bit 8 acc OR ucast b) 0 bs"

definition put_be_uint32 :: "uint32 \<Rightarrow> byte list" where
  "put_be_uint32 w = [ucast (drop_bit 24 w), ucast (drop_bit 16 w), ucast (drop_bit 8 w), ucast w]"

definition put_be_uint64 :: "64 word \<Rightarrow> byte list" where
  "put_be_uint64 w = map (\<lambda>i. ucast (drop_bit (8 * i) w)) [7, 6, 5, 4, 3, 2, 1, 0]"

fun chunks :: "nat \<Rightarrow> nat \<Rightarrow> 'a list \<Rightarrow> 'a list list" where
  "chunks 0 n xs = []"
| "chunks (Suc k) n xs = take n xs # chunks k n (drop n xs)"

definition sha256_pad :: "byte list \<Rightarrow> byte list" where
  "sha256_pad m =
     (let len = length m;
          z = (if len mod 64 < 56 then 55 - len mod 64 else 119 - len mod 64)
      in m @ [0x80] @ replicate z 0 @ put_be_uint64 (word_of_nat (len * 8)))"

text \<open>The message schedule: \<open>schedule n w\<close> appends \<open>n\<close> further words to \<open>w\<close>.\<close>

fun schedule :: "nat \<Rightarrow> uint32 list \<Rightarrow> uint32 list" where
  "schedule 0 w = w"
| "schedule (Suc n) w =
     (let i = length w;
          v1 = w ! (i - 2);
          t1 = word_rotr 17 v1 XOR word_rotr 19 v1 XOR drop_bit 10 v1;
          v2 = w ! (i - 15);
          t2 = word_rotr 7 v2 XOR word_rotr 18 v2 XOR drop_bit 3 v2
      in schedule n (w @ [t1 + w ! (i - 7) + t2 + w ! (i - 16)]))"

type_synonym sha256_regs =
  "uint32 \<times> uint32 \<times> uint32 \<times> uint32 \<times> uint32 \<times> uint32 \<times> uint32 \<times> uint32"

fun sha256_round :: "sha256_regs \<Rightarrow> uint32 \<times> uint32 \<Rightarrow> sha256_regs" where
  "sha256_round (a, b, c, d, e, f, g, h) (k, w) =
     (let t1 = h + (word_rotr 6 e XOR word_rotr 11 e XOR word_rotr 25 e)
                 + ((e AND f) XOR (NOT e AND g)) + k + w;
          t2 = (word_rotr 2 a XOR word_rotr 13 a XOR word_rotr 22 a)
                 + ((a AND b) XOR (a AND c) XOR (b AND c))
      in (t1 + t2, a, b, c, d + t1, e, f, g))"

fun blockGeneric :: "uint32 list \<Rightarrow> byte list \<Rightarrow> uint32 list" where
  "blockGeneric [h0, h1, h2, h3, h4, h5, h6, h7] p =
     (let w = schedule 48 (map be_uint32 (chunks 16 4 p));
          (a, b, c, d, e, f, g, h) =
             foldl sha256_round (h0, h1, h2, h3, h4, h5, h6, h7) (zip sha256_K w)
      in [h0 + a, h1 + b, h2 + c, h3 + d, h4 + e, h5 + f, h6 + g, h7 + h])"
| "blockGeneric hs p = hs"

definition Sum256 :: "byte list \<Rightarrow> byte list" where
  "Sum256 m =
     (let p = sha256_pad m
      in concat (map put_be_uint32
           (foldl blockGeneric sha256_init (chunks (length p div 64) 64 p))))"

section \<open>Kubernetes API types\<close>

text \<open>
  The structs of \<^verbatim>\<open>k8s.io/api\<close> and \<^verbatim>\<open>k8s.io/apimachinery\<close> with the fields
  the controllers read or write. Go's string-typed enumerations stay strings; a slice is
  a list, a \<^verbatim>\<open>map[string]string\<close> of labels is an association list, a pointer
  field that may be \<^verbatim>\<open>nil\<close> is an option.
\<close>

type_synonym labels = "(string \<times> string) list"

text \<open>
  \<^verbatim>\<open>metav1.Time\<close>: an instant, counted from Go's zero time; \<^verbatim>\<open>IsZero\<close> on the
  pointer holds for \<^verbatim>\<open>nil\<close> and for the zero instant.
\<close>

type_synonym Time = int

definition Time_IsZero :: "Time option \<Rightarrow> bool" where
  "Time_IsZero t = (case t of None \<Rightarrow> True | Some u \<Rightarrow> u = 0)"

record GroupVersion =
  Group :: string
  Version :: string

text \<open>\<^verbatim>\<open>schema.GroupVersion.String\<close>, which \<^verbatim>\<open>%s\<close> prints.\<close>

definition GroupVersion_String :: "GroupVersion \<Rightarrow> string" where
  "GroupVersion_String gv =
     (if length (Group gv) > 0 then Group gv @ ''/'' @ Version gv else Version gv)"

record TypeMeta =
  Kind :: string
  APIVersion :: string

record OwnerReference =
  APIVersion :: string
  Kind :: string
  Name :: string
  UID :: string
  Controller :: bool
  BlockOwnerDeletion :: bool

record ObjectMeta =
  Name :: string
  Namespace :: string
  UID :: string
  Labels :: labels
  DeletionTimestamp :: "Time option"
  Finalizers :: "string list"
  OwnerReferences :: "OwnerReference list"

definition empty_ObjectMeta :: ObjectMeta where
  "empty_ObjectMeta =
     \<lparr>ObjectMeta.Name = [], Namespace = [], UID = [], Labels = [],
      DeletionTimestamp = None, Finalizers = [], OwnerReferences = []\<rparr>"

record NamespacedName =
  Namespace :: string
  Name :: string

definition ObjectKeyFromMeta :: "ObjectMeta \<Rightarrow> NamespacedName" where
  "ObjectKeyFromMeta m =
     \<lparr>NamespacedName.Namespace = ObjectMeta.Namespace m, Name = ObjectMeta.Name m\<rparr>"

type_synonym PersistentVolumeAccessMode = string
type_synonym PersistentVolumeMode = string

definition ReadWriteOnce :: PersistentVolumeAccessMode where
  "ReadWriteOnce = ''ReadWriteOnce''"

definition PersistentVolumeFilesystem :: PersistentVolumeMode where
  "PersistentVolumeFilesystem = ''Filesystem''"

record PersistentVolumeClaimSpec =
  AccessModes :: "PersistentVolumeAccessMode list"
  Selector :: "labels option"
  Resources :: "(string \<times> string) list"
  VolumeName :: string
  StorageClassName :: "string option"
  VolumeMode :: "PersistentVolumeMode option"
  DataSource :: "string option"

record PersistentVolumeClaim =
  ObjectMeta :: ObjectMeta
  Spec :: PersistentVolumeClaimSpec

record ObjectFieldSelector =
  FieldPath :: string

record EnvVarSource =
  FieldRef :: "ObjectFieldSelector option"

record EnvVar =
  Name :: string
  Value :: string
  ValueFrom :: "EnvVarSource option"

record VolumeMount =
  Name :: string
  MountPath :: string

record SecurityContext =
  Privileged :: "bool option"
  RunAsUser :: "int64 option"

record Container =
  Name :: string
  Image :: string
  Command :: "string list"
  Args :: "string list"
  VolumeMounts :: "VolumeMount list"
  Env :: "EnvVar list"
  SecurityContext :: "SecurityContext option"

text \<open>\<^verbatim>\<open>v1.Container{}\<close>, the zero value.\<close>

definition empty_Container :: Container where
  "empty_Container =
     \<lparr>Container.Name = [], Image = [], Command = [], Args = [], VolumeMounts = [],
      Env = [], SecurityContext = None\<rparr>"

record PodSecurityContext =
  RunAsUser :: "int64 option"
  RunAsGroup :: "int64 option"
  FSGroup :: "int64 option"

record PersistentVolumeClaimVolumeSource =
  ClaimName :: string

record VolumeSource =
  PersistentVolumeClaim :: "PersistentVolumeClaimVolumeSource option"

record Volume =
  Name :: string
  VolumeSource :: VolumeSource

type_synonym RestartPolicy = string

definition RestartPolicyAlways :: RestartPolicy where
  "RestartPolicyAlways = ''Always''"

record PodSpec =
  InitContainers :: "Container list"
  Containers :: "Container list"
  RestartPolicy :: RestartPolicy
  SecurityContext :: "PodSecurityContext option"
  Volumes :: "Volume list"

record PodTemplateSpec =
  ObjectMeta :: ObjectMeta
  Spec :: PodSpec

definition empty_PodTemplateSpec :: PodTemplateSpec where
  "empty_PodTemplateSpec =
     \<lparr>PodTemplateSpec.ObjectMeta = empty_ObjectMeta,
      Spec = \<lparr>InitContainers = [], Containers = [], RestartPolicy = [],
               SecurityContext = None, Volumes = []\<rparr>\<rparr>"

text \<open>\<^verbatim>\<open>intstr.IntOrString\<close>; \<open>Type\<close> is 0 for an integer, 1 for a string.\<close>

record IntOrString =
  Type :: nat
  IntVal :: int32
  StrVal :: string

definition FromInt :: "int \<Rightarrow> IntOrString" where
  "FromInt val = \<lparr>Type = 0, IntVal = word_of_int val, StrVal = []\<rparr>"

record RollingUpdateDeployment =
  MaxUnavailable :: "IntOrString option"
  MaxSurge :: "IntOrString option"

type_synonym DeploymentStrategyType = string

definition RollingUpdateDeploymentStrategyType :: DeploymentStrategyType where
  "RollingUpdateDeploymentStrategyType = ''RollingUpdate''"

record DeploymentStrategy =
  Type :: DeploymentStrategyType
  RollingUpdate :: "RollingUpdateDeployment option"

record LabelSelector =
  MatchLabels :: labels

record DeploymentSpec =
  Replicas :: "int32 option"
  Selector :: "LabelSelector option"
  Template :: PodTemplateSpec
  Strategy :: DeploymentStrategy

record Deployment =
  ObjectMeta :: ObjectMeta
  Spec :: DeploymentSpec

text \<open>\<^verbatim>\<open>apps.DeploymentSpec{}\<close>, the spec of a deployment that was only given metadata.\<close>

definition empty_DeploymentSpec :: DeploymentSpec where
  "empty_DeploymentSpec =
     \<lparr>Replicas = None, Selector = None, Template = empty_PodTemplateSpec,
      Strategy = \<lparr>DeploymentStrategy.Type = [], RollingUpdate = None\<rparr>\<rparr>"

type_synonym Protocol = string

definition ProtocolTCP :: Protocol where
  "ProtocolTCP = ''TCP''"

record ServicePort =
  Name :: string
  Protocol :: Protocol
  Port :: int32
  TargetPort :: IntOrString

record ServiceSpec =
  Ports :: "ServicePort list"
  Selector :: labels
  ClusterIP :: string

record Service =
  ObjectMeta :: ObjectMeta
  Spec :: ServiceSpec

definition empty_ServiceSpec :: ServiceSpec where
  "empty_ServiceSpec = \<lparr>Ports = [], Selector = [], ClusterIP = []\<rparr>"

section \<open>The ObjectStore resource (\<^verbatim>\<open>api/v1alpha1\<close>)\<close>

record GatewaySpec =
  Port :: int32

record ObjectStoreSpec =
  Image :: string
  Gateway :: GatewaySpec
  VolumeClaimTemplate :: "PersistentVolumeClaim option"

record ObjectStoreStatus =
  Phase :: string

record ObjectStore =
  TypeMeta :: TypeMeta
  ObjectMeta :: ObjectMeta
  Spec :: ObjectStoreSpec
  Status :: ObjectStoreStatus

text \<open>\<^verbatim>\<open>&objectv1alpha1.ObjectStore{}\<close>, the object \<^verbatim>\<open>Reconcile\<close> fetches into.\<close>

definition empty_ObjectStore :: ObjectStore where
  "empty_ObjectStore =
     \<lparr>TypeMeta = \<lparr>TypeMeta.Kind = [], APIVersion = []\<rparr>,
      ObjectMeta = empty_ObjectMeta,
      Spec = \<lparr>ObjectStoreSpec.Image = [], Gateway = \<lparr>GatewaySpec.Port = 0\<rparr>,
               VolumeClaimTemplate = None\<rparr>,
      Status = \<lparr>Phase = []\<rparr>\<rparr>"

section \<open>Naming and flag helpers (\<^verbatim>\<open>controllers/spec.go\<close>)\<close>

definition rgwPortInternalPort :: int32 where
  "rgwPortInternalPort = 7480"

definition appName :: string where
  "appName = ''rgw''"

definition podNameEnvVar :: string where
  "podNameEnvVar = ''POD_NAME''"

definition objectStoreDataDirectory :: string where
  "objectStoreDataDirectory = ''/var/lib/ceph/radosgw/data''"

definition cephGID :: int64 where
  "cephGID = 167"

definition CephUID :: int64 where
  "CephUID = 167"

definition normalizeKey :: "string \<Rightarrow> string" where
  "normalizeKey key = Replace_all (Replace_all key '' '' ''_'') ''-'' ''_''"

definition ContainerEnvVarReference :: "string \<Rightarrow> string" where
  "ContainerEnvVarReference envVarName = ''$('' @ envVarName @ '')''"

definition defaultDaemonFlag :: "string list" where
  "defaultDaemonFlag = [''-d'', ''--no-mon-config'', ''--nolockdep '']"

definition instanceName :: "string \<Rightarrow> string \<Rightarrow> string" where
  "instanceName name namespace = appName @ ''-'' @ name @ ''-'' @ namespace"

definition NewFlag :: "string \<Rightarrow> string \<Rightarrow> string" where
  "NewFlag key val =
     (let n = normalizeKey key;
          f = Replace_all n ''_'' ''-''
      in ''--'' @ f @ ''='' @ val)"

text \<open>
  The spellings of a key: \<open>respell sep key\<close> is \<open>key\<close> with each of its word
  separators (space, hyphen, underscore) written as \<open>sep\<close>. It is used to state that
  the three spellings of a key give one flag.
\<close>

definition respell :: "char \<Rightarrow> string \<Rightarrow> string" where
  "respell sep key =
     map (\<lambda>c. if c = CHR '' '' \<or> c = CHR ''-'' \<or> c = CHR ''_'' then sep else c) key"

text \<open>
  \<^verbatim>\<open>v1alpha1.GroupVersion\<close> is declared in a file of the \<^verbatim>\<open>api/v1alpha1\<close>
  package that is not among the sources; it is the parameter \<open>gv\<close>. The format verb
  \<^verbatim>\<open>%s\<close> prints it with its \<^verbatim>\<open>String\<close> method.
\<close>

definition buildFinalizerName :: "GroupVersion \<Rightarrow> string \<Rightarrow> string" where
  "buildFinalizerName gv kind = ToLower kind @ ''.'' @ GroupVersion_String gv"

definition DaemonEnvVars :: "string \<Rightarrow> EnvVar list" where
  "DaemonEnvVars image' =
     [\<lparr>EnvVar.Name = ''CONTAINER_IMAGE'', Value = image', ValueFrom = None\<rparr>,
      \<lparr>EnvVar.Name = ''POD_NAME'', Value = [],
       ValueFrom = Some \<lparr>FieldRef = Some \<lparr>FieldPath = ''metadata.name''\<rparr>\<rparr>\<rparr>,
      \<lparr>EnvVar.Name = ''POD_NAMESPACE'', Value = [],
       ValueFrom = Some \<lparr>FieldRef = Some \<lparr>FieldPath = ''metadata.namespace''\<rparr>\<rparr>\<rparr>,
      \<lparr>EnvVar.Name = ''NODE_NAME'', Value = [],
       ValueFrom = Some \<lparr>FieldRef = Some \<lparr>FieldPath = ''spec.nodeName''\<rparr>\<rparr>\<rparr>,
      \<lparr>EnvVar.Name = ''CEPH_LIB'', Value = ''/usr/lib64/rados-classes'', ValueFrom = None\<rparr>]"

definition DaemonVolumesDataPVC :: "string \<Rightarrow> Volume" where
  "DaemonVolumesDataPVC pvcName =
     \<lparr>Volume.Name = ''ceph-daemon-data'',
      VolumeSource = \<lparr>PersistentVolumeClaim = Some \<lparr>ClaimName = pvcName\<rparr>\<rparr>\<rparr>"

definition daemonVolumeMountPVC :: VolumeMount where
  "daemonVolumeMountPVC =
     \<lparr>VolumeMount.Name = ''ceph-daemon-data'', MountPath = objectStoreDataDirectory\<rparr>"

definition hash :: "string \<Rightarrow> string" where
  "hash s = (let h = Sum256 (bytes_of s) in EncodeToString (take 16 h))"

section \<open>The resource-spec builder (\<^verbatim>\<open>controllers/spec.go\<close>)\<close>

definition getLabels :: "string \<Rightarrow> string \<Rightarrow> bool \<Rightarrow> labels" where
  "getLabels name namespace includeNewLabels = [(''object_store'', name)]"

definition chownCephDataDirsInitContainer ::
  "string \<Rightarrow> VolumeMount list \<Rightarrow> SecurityContext option \<Rightarrow> Container" where
  "chownCephDataDirsInitContainer containerImage volumeMounts securityContext =
     (let args = [] @ [''--verbose'', ''--recursive'', ''ceph:ceph'', objectStoreDataDirectory]
      in \<lparr>Container.Name = ''chown-container-data-dir'',
          Image = containerImage,
          Command = [''chown''],
          Args = args,
          VolumeMounts = volumeMounts,
          Env = [],
          SecurityContext = securityContext\<rparr>)"

definition podSecurityContext :: "SecurityContext option" where
  "podSecurityContext = Some \<lparr>Privileged = Some True, SecurityContext.RunAsUser = Some 0\<rparr>"

definition makeDaemonContainer :: "ObjectStore \<Rightarrow> Container" where
  "makeDaemonContainer objectStore =
     \<lparr>Container.Name = ''rgw'',
      Image = ObjectStoreSpec.Image (ObjectStore.Spec objectStore),
      Command = [''radosgw-sqlite''],
      Args = defaultDaemonFlag @
        [NewFlag ''id'' (hash (ContainerEnvVarReference podNameEnvVar)),
         NewFlag ''host'' (ContainerEnvVarReference podNameEnvVar),
         NewFlag ''librados sqlite data dir'' objectStoreDataDirectory,
         NewFlag ''debug rgw'' ''15''],
      VolumeMounts = [daemonVolumeMountPVC],
      Env = DaemonEnvVars (ObjectStoreSpec.Image (ObjectStore.Spec objectStore)),
      SecurityContext = None\<rparr>"

text \<open>
  Errors. An error of the API client carries its status reason; \<^verbatim>\<open>fmt.Errorf\<close>
  builds a new error from a format and its string arguments, and with \<^verbatim>\<open>%w\<close> wraps
  another error.
\<close>

datatype StatusReason = NotFound | AlreadyExists | OtherReason string

datatype error =
    StatusError StatusReason
  | Errorf string "string list"
  | Wrapf string "string list" error

definition IsNotFound :: "StatusReason \<Rightarrow> bool" where
  "IsNotFound e = (e = NotFound)"

definition IsAlreadyExists :: "StatusReason \<Rightarrow> bool" where
  "IsAlreadyExists e = (e = AlreadyExists)"

definition makeRGWPodSpec :: "ObjectStore \<Rightarrow> error + PodTemplateSpec" where
  "makeRGWPodSpec objectStore =
     (let rgwDaemonContainer = makeDaemonContainer objectStore
      in if rgwDaemonContainer = empty_Container
         then Inl (Errorf ''got empty container for RGW daemon'' [])
         else
           let name = ObjectMeta.Name (ObjectStore.ObjectMeta objectStore);
               namespace = ObjectMeta.Namespace (ObjectStore.ObjectMeta objectStore);
               podSpec =
                 \<lparr>InitContainers =
                    [chownCephDataDirsInitContainer
                       (ObjectStoreSpec.Image (ObjectStore.Spec objectStore))
                       [daemonVolumeMountPVC] podSecurityContext],
                  Containers = [rgwDaemonContainer],
                  RestartPolicy = RestartPolicyAlways,
                  SecurityContext =
                    Some \<lparr>PodSecurityContext.RunAsUser = Some CephUID,
                          RunAsGroup = Some cephGID,
                          FSGroup = Some CephUID\<rparr>,
                  Volumes = [DaemonVolumesDataPVC (instanceName name namespace)]\<rparr>;
               podTemplateSpec =
                 \<lparr>PodTemplateSpec.ObjectMeta =
                    empty_ObjectMeta
                      \<lparr>ObjectMeta.Name := instanceName name namespace,
                       Labels := getLabels name namespace True\<rparr>,
                  Spec = podSpec\<rparr>
           in Inr podTemplateSpec)"

definition generateService :: "ObjectStore \<Rightarrow> Service" where
  "generateService objectStore =
     (let name = ObjectMeta.Name (ObjectStore.ObjectMeta objectStore);
          namespace = ObjectMeta.Namespace (ObjectStore.ObjectMeta objectStore)
      in \<lparr>Service.ObjectMeta =
            empty_ObjectMeta
              \<lparr>ObjectMeta.Name := instanceName name namespace,
               ObjectMeta.Namespace := namespace,
               Labels := getLabels name namespace True\<rparr>,
          Spec = empty_ServiceSpec\<rparr>)"

definition addPort :: "Service \<Rightarrow> string \<Rightarrow> int32 \<Rightarrow> int32 \<Rightarrow> Service" where
  "addPort service name port destPort =
     (if port = 0 \<or> destPort = 0 then service
      else service
        \<lparr>Service.Spec := (Service.Spec service)
           \<lparr>Ports := Ports (Service.Spec service) @
              [\<lparr>ServicePort.Name = name,
                Protocol = ProtocolTCP,
                Port = port,
                TargetPort = FromInt (sint destPort)\<rparr>]\<rparr>\<rparr>)"

text \<open>
  The closure \<^verbatim>\<open>mutateFunc\<close> of \<^verbatim>\<open>reconcileService\<close>, as a function of the
  service it is run on.
\<close>

definition reconcileService_mutateFunc :: "ObjectStore \<Rightarrow> Service \<Rightarrow> error + Service" where
  "reconcileService_mutateFunc objectStore service =
     (let name = ObjectMeta.Name (ObjectStore.ObjectMeta objectStore);
          namespace = ObjectMeta.Namespace (ObjectStore.ObjectMeta objectStore);
          service = service
            \<lparr>Service.Spec := empty_ServiceSpec
               \<lparr>ServiceSpec.Selector := getLabels name namespace False\<rparr>\<rparr>
      in Inr (addPort service ''http'' 8080 rgwPortInternalPort))"

text \<open>The closure \<^verbatim>\<open>mutateFunc\<close> of \<^verbatim>\<open>createOrUpdateDeployment\<close>.\<close>

definition createOrUpdateDeployment_mutateFunc ::
  "ObjectStore \<Rightarrow> Deployment \<Rightarrow> error + Deployment" where
  "createOrUpdateDeployment_mutateFunc objectStore deploy =
     (case makeRGWPodSpec objectStore of
        Inl err \<Rightarrow> Inl err
      | Inr pod \<Rightarrow>
          let name = ObjectMeta.Name (ObjectStore.ObjectMeta objectStore);
              namespace = ObjectMeta.Namespace (ObjectStore.ObjectMeta objectStore);
              replicas = (1 :: int32);
              strategy = \<lparr>DeploymentStrategy.Type = RollingUpdateDeploymentStrategyType,
                          RollingUpdate = None\<rparr>;
              strategy = strategy
                \<lparr>RollingUpdate := Some
                   \<lparr>MaxUnavailable = Some \<lparr>IntOrString.Type = 0, IntVal = 1, StrVal = []\<rparr>,
                    MaxSurge = Some \<lparr>IntOrString.Type = 0, IntVal = 0, StrVal = []\<rparr>\<rparr>\<rparr>
          in Inr (deploy
               \<lparr>Deployment.Spec :=
                  \<lparr>Replicas = Some replicas,
                   Selector = Some \<lparr>MatchLabels = getLabels name namespace False\<rparr>,
                   Template = pod,
                   Strategy = strategy\<rparr>\<rparr>))"

section \<open>The cluster API client and \<^verbatim>\<open>controllerutil\<close>\<close>

text \<open>
  The reconciler works against the interface \<^verbatim>\<open>client.Client\<close>. Its implementation
  is not part of the program: a client is any record of operations over a store state
  \<open>'st\<close>. An operation returns the status reason of its failure, or the object as
  the store answered it (\<^verbatim>\<open>Get\<close>, \<^verbatim>\<open>Create\<close> and \<^verbatim>\<open>Update\<close> write the
  answer into the object they are given).
\<close>

record 'st Client =
  Get_ObjectStore :: "NamespacedName \<Rightarrow> 'st \<Rightarrow> (StatusReason + ObjectStore) \<times> 'st"
  Get_Service :: "NamespacedName \<Rightarrow> 'st \<Rightarrow> (StatusReason + Service) \<times> 'st"
  Get_Deployment :: "NamespacedName \<Rightarrow> 'st \<Rightarrow> (StatusReason + Deployment) \<times> 'st"
  Create_PersistentVolumeClaim ::
    "PersistentVolumeClaim \<Rightarrow> 'st \<Rightarrow> (StatusReason + PersistentVolumeClaim) \<times> 'st"
  Create_Service :: "Service \<Rightarrow> 'st \<Rightarrow> (StatusReason + Service) \<times> 'st"
  Create_Deployment :: "Deployment \<Rightarrow> 'st \<Rightarrow> (StatusReason + Deployment) \<times> 'st"
  Update_Service :: "Service \<Rightarrow> 'st \<Rightarrow> (StatusReason + Service) \<times> 'st"
  Update_Deployment :: "Deployment \<Rightarrow> 'st \<Rightarrow> (StatusReason + Deployment) \<times> 'st"

text \<open>
  Every call of the client is recorded, in order. \<^verbatim>\<open>Get\<close> reads; \<^verbatim>\<open>Create\<close>,
  \<^verbatim>\<open>Update\<close>, \<^verbatim>\<open>Delete\<close> and \<^verbatim>\<open>Patch\<close> are the interface's mutations.
\<close>

datatype object =
    ObjectStore_object ObjectStore
  | PersistentVolumeClaim_object PersistentVolumeClaim
  | Service_object Service
  | Deployment_object Deployment

datatype object_type =
  ObjectStore_type | PersistentVolumeClaim_type | Service_type | Deployment_type

datatype call =
    Get_call object_type NamespacedName
  | Create_call object
  | Update_call object
  | Delete_call object
  | Patch_call object

fun is_mutation :: "call \<Rightarrow> bool" where
  "is_mutation (Get_call t key) = False"
| "is_mutation (Create_call obj) = True"
| "is_mutation (Update_call obj) = True"
| "is_mutation (Delete_call obj) = True"
| "is_mutation (Patch_call obj) = True"

fun is_delete :: "call \<Rightarrow> bool" where
  "is_delete (Delete_call obj) = True"
| "is_delete c = False"

record 'st world =
  store :: 'st
  calls :: "call list"

definition invoke :: "call \<Rightarrow> ('st \<Rightarrow> 'a \<times> 'st) \<Rightarrow> 'st world \<Rightarrow> 'a \<times> 'st world" where
  "invoke c operation w =
     (let (res, st) = operation (store w)
      in (res, \<lparr>store = st, calls = calls w @ [c]\<rparr>))"

text \<open>
  The reconciler: its client, and its scheme as far as the program uses it, which is
  through \<^verbatim>\<open>controllerutil.SetControllerReference(owner, object, r.Scheme)\<close>: it
  fails, or returns the object's metadata with the owner reference set.
\<close>

record 'st ObjectStoreReconciler =
  Client :: "'st Client"
  SetControllerReference :: "ObjectStore \<Rightarrow> ObjectMeta \<Rightarrow> error + ObjectMeta"

type_synonym OperationResult = string

definition OperationResultNone :: OperationResult where
  "OperationResultNone = ''unchanged''"

definition OperationResultCreated :: OperationResult where
  "OperationResultCreated = ''created''"

definition OperationResultUpdated :: OperationResult where
  "OperationResultUpdated = ''updated''"

text \<open>
  \<^verbatim>\<open>controllerutil.mutate\<close>: run the mutation function, and refuse a changed key.
  The result is the error, if any, and the object as the call leaves it.
\<close>

definition mutate ::
  "('o \<Rightarrow> error + 'o) \<Rightarrow> ('o \<Rightarrow> NamespacedName) \<Rightarrow> NamespacedName \<Rightarrow> 'o \<Rightarrow> error option \<times> 'o" where
  "mutate f keyOf key obj =
     (case f obj of
        Inl err \<Rightarrow> (Some err, obj)
      | Inr obj' \<Rightarrow>
          if key \<noteq> keyOf obj'
          then (Some (Errorf ''MutateFn cannot mutate object name and/or object namespace'' []),
                obj')
          else (None, obj'))"

text \<open>
  \<^verbatim>\<open>controllerutil.CreateOrUpdate\<close>, given the client's three operations for the
  object's type: fetch the object; when it is not found, mutate and create it; when it
  is there, mutate it and update it unless the mutation changed nothing.
\<close>

definition CreateOrUpdate ::
  "(NamespacedName \<Rightarrow> 'w \<Rightarrow> (StatusReason + 'o) \<times> 'w) \<Rightarrow>
   ('o \<Rightarrow> 'w \<Rightarrow> (StatusReason + 'o) \<times> 'w) \<Rightarrow>
   ('o \<Rightarrow> 'w \<Rightarrow> (StatusReason + 'o) \<times> 'w) \<Rightarrow>
   ('o \<Rightarrow> NamespacedName) \<Rightarrow> 'o \<Rightarrow> ('o \<Rightarrow> error + 'o) \<Rightarrow> 'w \<Rightarrow>
   (OperationResult \<times> error option \<times> 'o) \<times> 'w" where
  "CreateOrUpdate get create update keyOf obj f w =
     (let key = keyOf obj
      in case get key w of
           (Inl err, w1) \<Rightarrow>
             if \<not> IsNotFound err
             then ((OperationResultNone, Some (StatusError err), obj), w1)
             else (case mutate f keyOf key obj of
                     (Some err', obj') \<Rightarrow> ((OperationResultNone, Some err', obj'), w1)
                   | (None, obj') \<Rightarrow>
                       (case create obj' w1 of
                          (Inl err'', w2) \<Rightarrow>
                            ((OperationResultNone, Some (StatusError err''), obj'), w2)
                        | (Inr obj'', w2) \<Rightarrow>
                            ((OperationResultCreated, None, obj''), w2)))
         | (Inr existing, w1) \<Rightarrow>
             (case mutate f keyOf key existing of
                (Some err', obj') \<Rightarrow> ((OperationResultNone, Some err', obj'), w1)
              | (None, obj') \<Rightarrow>
                  if existing = obj'
                  then ((OperationResultNone, None, obj'), w1)
                  else (case update obj' w1 of
                          (Inl err'', w2) \<Rightarrow>
                            ((OperationResultNone, Some (StatusError err''), obj'), w2)
                        | (Inr obj'', w2) \<Rightarrow>
                            ((OperationResultUpdated, None, obj''), w2))))"

text \<open>The finalizer helpers of \<^verbatim>\<open>controllerutil\<close>, on the object's metadata.\<close>

definition ContainsFinalizer :: "ObjectMeta \<Rightarrow> string \<Rightarrow> bool" where
  "ContainsFinalizer m finalizer = (finalizer \<in> set (Finalizers m))"

definition AddFinalizer :: "ObjectMeta \<Rightarrow> string \<Rightarrow> ObjectMeta" where
  "AddFinalizer m finalizer =
     (if finalizer \<in> set (Finalizers m) then m
      else m\<lparr>Finalizers := Finalizers m @ [finalizer]\<rparr>)"

definition RemoveFinalizer :: "ObjectMeta \<Rightarrow> string \<Rightarrow> ObjectMeta" where
  "RemoveFinalizer m finalizer =
     m\<lparr>Finalizers := filter (\<lambda>e. e \<noteq> finalizer) (Finalizers m)\<rparr>"

section \<open>The reconciliation engine (\<^verbatim>\<open>controllers/objectstore_controller.go\<close>)\<close>

text \<open>
  A call returns, or panics (a \<^verbatim>\<open>nil\<close> pointer is dereferenced). The messages
  written to \<^verbatim>\<open>r.Logger\<close> are left out: no client call and no result depends on
  them.
\<close>

datatype 'a exec = Returns 'a | Panics string

record Result =
  Requeue :: bool
  RequeueAfter :: int

definition empty_Result :: Result where
  "empty_Result = \<lparr>Requeue = False, RequeueAfter = 0\<rparr>"

record Request =
  NamespacedName :: NamespacedName

definition createPVC ::
  "'st ObjectStoreReconciler \<Rightarrow> ObjectStore \<Rightarrow> 'st world \<Rightarrow> error option exec \<times> 'st world" where
  "createPVC r objectStore w =
     (case VolumeClaimTemplate (ObjectStore.Spec objectStore) of
        None \<Rightarrow> (Panics ''invalid memory address or nil pointer dereference'', w)
      | Some template \<Rightarrow>
          let name = ObjectMeta.Name (ObjectStore.ObjectMeta objectStore);
              namespace = ObjectMeta.Namespace (ObjectStore.ObjectMeta objectStore);
              volumeMode = PersistentVolumeFilesystem;
              pvc = \<lparr>PersistentVolumeClaim.ObjectMeta =
                       empty_ObjectMeta
                         \<lparr>ObjectMeta.Name := instanceName name namespace,
                          ObjectMeta.Namespace := namespace\<rparr>,
                     Spec = PersistentVolumeClaim.Spec template\<rparr>;
              pvc = pvc\<lparr>PersistentVolumeClaim.Spec :=
                      (PersistentVolumeClaim.Spec pvc)\<lparr>AccessModes := [ReadWriteOnce]\<rparr>\<rparr>;
              pvc = pvc\<lparr>PersistentVolumeClaim.Spec :=
                      (PersistentVolumeClaim.Spec pvc)\<lparr>VolumeMode := Some volumeMode\<rparr>\<rparr>
          in case invoke (Create_call (PersistentVolumeClaim_object pvc))
                    (Create_PersistentVolumeClaim (Client r) pvc) w of
               (Inl err, w') \<Rightarrow>
                 if IsAlreadyExists err then (Returns None, w')
                 else (Returns (Some (Wrapf ''failed to create PVC %q: %w''
                         [ObjectMeta.Name (PersistentVolumeClaim.ObjectMeta pvc)]
                         (StatusError err))), w')
             | (Inr created, w') \<Rightarrow> (Returns None, w'))"

definition reconcileService ::
  "'st ObjectStoreReconciler \<Rightarrow> ObjectStore \<Rightarrow> 'st world \<Rightarrow>
   (string \<times> error option) \<times> 'st world" where
  "reconcileService r objectStore w =
     (let service = generateService objectStore
      in case SetControllerReference r objectStore (Service.ObjectMeta service) of
           Inl err \<Rightarrow>
             (([], Some (Wrapf ''failed to set owner reference to service %q: %w''
                 [ObjectMeta.Name (Service.ObjectMeta service)] err)), w)
         | Inr meta \<Rightarrow>
             let service = service\<lparr>Service.ObjectMeta := meta\<rparr>
             in case CreateOrUpdate
                       (\<lambda>key. invoke (Get_call Service_type key) (Get_Service (Client r) key))
                       (\<lambda>obj. invoke (Create_call (Service_object obj))
                                 (Create_Service (Client r) obj))
                       (\<lambda>obj. invoke (Update_call (Service_object obj))
                                 (Update_Service (Client r) obj))
                       (\<lambda>obj. ObjectKeyFromMeta (Service.ObjectMeta obj))
                       service (reconcileService_mutateFunc objectStore) w of
                  ((opResult, Some err, service), w') \<Rightarrow>
                    (([], Some (Wrapf ''failed to create or update object store %q service %q: %w''
                        [ObjectMeta.Name (ObjectStore.ObjectMeta objectStore), opResult] err)), w')
                | ((opResult, None, service), w') \<Rightarrow>
                    ((ClusterIP (Service.Spec service), None), w'))"

definition createOrUpdateDeployment ::
  "'st ObjectStoreReconciler \<Rightarrow> ObjectStore \<Rightarrow> 'st world \<Rightarrow>
   (OperationResult \<times> error option) \<times> 'st world" where
  "createOrUpdateDeployment r objectStore w =
     (let name = ObjectMeta.Name (ObjectStore.ObjectMeta objectStore);
          namespace = ObjectMeta.Namespace (ObjectStore.ObjectMeta objectStore);
          deploy = \<lparr>Deployment.ObjectMeta =
                      empty_ObjectMeta
                        \<lparr>ObjectMeta.Name := instanceName name namespace,
                         ObjectMeta.Namespace := namespace,
                         Labels := getLabels name namespace True\<rparr>,
                    Spec = empty_DeploymentSpec\<rparr>
      in case SetControllerReference r objectStore (Deployment.ObjectMeta deploy) of
           Inl err \<Rightarrow>
             (([], Some (Wrapf ''failed to set owner reference to deployment %q: %w''
                 [ObjectMeta.Name (Deployment.ObjectMeta deploy)] err)), w)
         | Inr meta \<Rightarrow>
             let deploy = deploy\<lparr>Deployment.ObjectMeta := meta\<rparr>
             in case CreateOrUpdate
                       (\<lambda>key. invoke (Get_call Deployment_type key)
                                 (Get_Deployment (Client r) key))
                       (\<lambda>obj. invoke (Create_call (Deployment_object obj))
                                 (Create_Deployment (Client r) obj))
                       (\<lambda>obj. invoke (Update_call (Deployment_object obj))
                                 (Update_Deployment (Client r) obj))
                       (\<lambda>obj. ObjectKeyFromMeta (Deployment.ObjectMeta obj))
                       deploy (createOrUpdateDeployment_mutateFunc objectStore) w of
                  ((opResult, err, deploy), w') \<Rightarrow> ((opResult, err), w'))"

text \<open>
  \<^verbatim>\<open>Reconcile\<close> returns its result and error; the model also returns the
  in-memory object \<^verbatim>\<open>objectStore\<close> as the call leaves it, and the world.
\<close>

definition Reconcile ::
  "GroupVersion \<Rightarrow> 'st ObjectStoreReconciler \<Rightarrow> Request \<Rightarrow> 'st world \<Rightarrow>
   (Result \<times> error option) exec \<times> ObjectStore \<times> 'st world" where
  "Reconcile gv r req w =
     (let objectStore = empty_ObjectStore
      in case invoke (Get_call ObjectStore_type (NamespacedName req))
                (Get_ObjectStore (Client r) (NamespacedName req)) w of
           (Inl err, w1) \<Rightarrow>
             if IsNotFound err then (Returns (empty_Result, None), objectStore, w1)
             else (Returns (empty_Result,
                     Some (Wrapf ''failed to get ObjectStore: %w'' [] (StatusError err))),
                   objectStore, w1)
         | (Inr objectStore, w1) \<Rightarrow>
             let finalizerName =
                   buildFinalizerName gv (TypeMeta.Kind (ObjectStore.TypeMeta objectStore))
             in if \<not> Time_IsZero (DeletionTimestamp (ObjectStore.ObjectMeta objectStore))
                then
                  let objectStore = objectStore
                        \<lparr>ObjectStore.ObjectMeta :=
                           RemoveFinalizer (ObjectStore.ObjectMeta objectStore) finalizerName\<rparr>
                  in (Returns (empty_Result, None), objectStore, w1)
                else
                  let objectStore =
                        (if \<not> ContainsFinalizer (ObjectStore.ObjectMeta objectStore) finalizerName
                         then objectStore
                           \<lparr>ObjectStore.ObjectMeta :=
                              AddFinalizer (ObjectStore.ObjectMeta objectStore) finalizerName\<rparr>
                         else objectStore)
                  in case createPVC r objectStore w1 of
                       (Panics msg, w2) \<Rightarrow> (Panics msg, objectStore, w2)
                     | (Returns (Some err), w2) \<Rightarrow>
                         (Returns (empty_Result,
                            Some (Wrapf ''failed to create PVC: %w'' [] err)), objectStore, w2)
                     | (Returns None, w2) \<Rightarrow>
                         (case reconcileService r objectStore w2 of
                            ((ip, Some err), w3) \<Rightarrow>
                              (Returns (empty_Result,
                                 Some (Wrapf ''failed to reconcile Service: %w'' [] err)),
                               objectStore, w3)
                          | ((ip, None), w3) \<Rightarrow>
                              (case createOrUpdateDeployment r objectStore w3 of
                                 ((reconcileResult, Some err), w4) \<Rightarrow>
                                   (Returns (empty_Result,
                                      Some (Wrapf ''failed to create or update deployment: %w''
                                        [] err)),
                                    objectStore, w4)
                               | ((reconcileResult, None), w4) \<Rightarrow>
                                   (Returns (empty_Result, None), objectStore, w4))))"

section \<open>Sample inputs\<close>

text \<open>
  Concrete inputs on which the theorems below are run: the group and version of the
  custom resource definition, an ObjectStore with a storage-claim template that asks for
  other storage parameters than the controller forces, the same ObjectStore marked for
  deletion, and a client over a trivial store that answers the fetch of the ObjectStore
  as told, finds no service and no deployment, and accepts every write.
\<close>

definition sample_GroupVersion :: GroupVersion where
  "sample_GroupVersion = \<lparr>Group = ''object.rook-s3-nano'', Version = ''v1alpha1''\<rparr>"

definition sample_template :: PersistentVolumeClaim where
  "sample_template =
     \<lparr>PersistentVolumeClaim.ObjectMeta = empty_ObjectMeta,
      Spec = \<lparr>AccessModes = [''ReadWriteMany''], Selector = None,
               Resources = [(''storage'', ''10Gi'')], VolumeName = [],
               StorageClassName = Some ''fast'', VolumeMode = Some ''Block'',
               DataSource = None\<rparr>\<rparr>"

definition sample_ObjectStore :: ObjectStore where
  "sample_ObjectStore =
     \<lparr>TypeMeta = \<lparr>TypeMeta.Kind = ''ObjectStore'',
                   APIVersion = ''object.rook-s3-nano/v1alpha1''\<rparr>,
      ObjectMeta = empty_ObjectMeta
        \<lparr>ObjectMeta.Name := ''store'', ObjectMeta.Namespace := ''default''\<rparr>,
      Spec = \<lparr>ObjectStoreSpec.Image = ''quay.io/ceph/ceph'',
               Gateway = \<lparr>GatewaySpec.Port = 0\<rparr>,
               VolumeClaimTemplate = Some sample_template\<rparr>,
      Status = \<lparr>Phase = []\<rparr>\<rparr>"

definition deleting_ObjectStore :: ObjectStore where
  "deleting_ObjectStore =
     sample_ObjectStore
       \<lparr>ObjectStore.ObjectMeta := (ObjectStore.ObjectMeta sample_ObjectStore)
          \<lparr>DeletionTimestamp := Some 1700000000,
           Finalizers := [''objectstore.object.rook-s3-nano/v1alpha1'', ''other'']\<rparr>\<rparr>"

definition sample_Client :: "StatusReason + ObjectStore \<Rightarrow> unit Client" where
  "sample_Client answer =
     \<lparr>Get_ObjectStore = (\<lambda>key st. (answer, st)),
      Get_Service = (\<lambda>key st. (Inl NotFound, st)),
      Get_Deployment = (\<lambda>key st. (Inl NotFound, st)),
      Create_PersistentVolumeClaim = (\<lambda>obj st. (Inr obj, st)),
      Create_Service = (\<lambda>obj st. (Inr obj, st)),
      Create_Deployment = (\<lambda>obj st. (Inr obj, st)),
      Update_Service = (\<lambda>obj st. (Inr obj, st)),
      Update_Deployment = (\<lambda>obj st. (Inr obj, st))\<rparr>"

definition sample_Reconciler :: "StatusReason + ObjectStore \<Rightarrow> unit ObjectStoreReconciler" where
  "sample_Reconciler answer =
     \<lparr>Client = sample_Client answer,
      SetControllerReference = (\<lambda>owner meta. Inr (meta
        \<lparr>OwnerReferences :=
           [\<lparr>OwnerReference.APIVersion = TypeMeta.APIVersion (ObjectStore.TypeMeta owner),
             Kind = TypeMeta.Kind (ObjectStore.TypeMeta owner),
             Name = ObjectMeta.Name (ObjectStore.ObjectMeta owner),
             UID = ObjectMeta.UID (ObjectStore.ObjectMeta owner),
             Controller = True, BlockOwnerDeletion = True\<rparr>]\<rparr>))\<rparr>"

definition sample_Request :: Request where
  "sample_Request =
     \<lparr>NamespacedName = \<lparr>NamespacedName.Namespace = ''default'', Name = ''store''\<rparr>\<rparr>"

definition empty_world :: "unit world" where
  "empty_world = \<lparr>store = (), calls = []\<rparr>"

text \<open>
  A client over a store that holds at most one ObjectStore: the fetch answers with the
  stored object when its namespace and name are the requested ones, and with not-found
  otherwise. The client finds no service and no deployment, and accepts the writes of
  claims, services and deployments without touching the stored ObjectStore.
\<close>

definition stored_Client :: "ObjectStore option Client" where
  "stored_Client =
     \<lparr>Get_ObjectStore = (\<lambda>key st.
        (case st of
           None \<Rightarrow> Inl NotFound
         | Some obj \<Rightarrow>
             if ObjectKeyFromMeta (ObjectStore.ObjectMeta obj) = key then Inr obj
             else Inl NotFound, st)),
      Get_Service = (\<lambda>key st. (Inl NotFound, st)),
      Get_Deployment = (\<lambda>key st. (Inl NotFound, st)),
      Create_PersistentVolumeClaim = (\<lambda>obj st. (Inr obj, st)),
      Create_Service = (\<lambda>obj st. (Inr obj, st)),
      Create_Deployment = (\<lambda>obj st. (Inr obj, st)),
      Update_Service = (\<lambda>obj st. (Inr obj, st)),
      Update_Deployment = (\<lambda>obj st. (Inr obj, st))\<rparr>"

definition stored_Reconciler :: "ObjectStore option ObjectStoreReconciler" where
  "stored_Reconciler =
     \<lparr>Client = stored_Client,
      SetControllerReference = SetControllerReference (sample_Reconciler (Inl NotFound))\<rparr>"

text \<open>The world in which the store holds the ObjectStore that is marked for deletion.\<close>

definition deleting_world :: "ObjectStore option world" where
  "deleting_world = \<lparr>store = Some deleting_ObjectStore, calls = []\<rparr>"

section \<open>Properties\<close>

subsection \<open>Auxiliary facts\<close>

lemma Replace_all_char:
  "Replace_all s [a] [b] = map (\<lambda>c. if c = a then b else c) s"
  by (induction s) auto

lemma NewFlag_respell:
  "NewFlag key val = ''--'' @ respell (CHR ''-'') key @ ''='' @ val"
  by (simp add: NewFlag_def normalizeKey_def Replace_all_char respell_def Let_def)

lemma respell_respell:
  "b = CHR '' '' \<or> b = CHR ''-'' \<or> b = CHR ''_'' \<Longrightarrow>
   respell a (respell b key) = respell a key"
  by (auto simp: respell_def)

text \<open>The digest of the reference token, computed by the definitions above.\<close>

lemma hash_POD_NAME: "hash ''$(POD_NAME)'' = ''3b5dd2b313abb4941d0de8ecdd7b2fb2''"
  by code_simp

text \<open>A test vector of FIPS 180-4: the first bytes of the digest of \<open>abc\<close>.\<close>

lemma Sum256_abc:
  "EncodeToString (Sum256 (bytes_of ''abc'')) =
     ''ba7816bf8f01cfea414140de5dae2223b00361a396177a9cb410ff61f20015ad''"
  by code_simp

lemma length_blockGeneric:
  assumes "length hs = 8"
  shows "length (blockGeneric hs p) = 8"
proof -
  from assms obtain h0 h1 h2 h3 h4 h5 h6 h7 where "hs = [h0, h1, h2, h3, h4, h5, h6, h7]"
    by (auto simp: length_Suc_conv eval_nat_numeral)
  then show ?thesis
    by (simp add: Let_def split: prod.splits)
qed

lemma length_foldl_blockGeneric:
  "length hs = 8 \<Longrightarrow> length (foldl blockGeneric hs ps) = 8"
  by (induction ps arbitrary: hs) (simp_all add: length_blockGeneric)

lemma length_concat_put_be_uint32:
  "length (concat (map put_be_uint32 ws)) = 4 * length ws"
  by (induction ws) (simp_all add: put_be_uint32_def)

lemma length_Sum256: "length (Sum256 m) = 32"
  by (simp add: Sum256_def Let_def length_concat_put_be_uint32
        length_foldl_blockGeneric sha256_init_def)

lemma length_EncodeToString: "length (EncodeToString src) = 2 * length src"
  by (induction src) (simp_all add: EncodeToString_def)

lemma high_nibble_less: "unat (drop_bit 4 (v :: byte)) < 16"
proof -
  have "unat (drop_bit 4 v) = unat v div 2 ^ 4"
    by (simp add: drop_bit_eq_div unat_div)
  moreover have "unat v < 2 ^ 8"
    using unsigned_less [of v] by simp
  ultimately show ?thesis by simp
qed

lemma low_nibble_less: "unat ((v :: byte) AND 0x0f) < 16"
proof -
  have "v AND 15 \<le> 15"
    by (simp add: word_and_le1)
  then have "unat (v AND 15) \<le> unat (15 :: byte)"
    by (simp only: word_le_nat_alt)
  then show ?thesis by simp
qed

lemma EncodeToString_hextable: "set (EncodeToString src) \<subseteq> set hextable"
proof -
  have "length hextable = 16"
    by (simp add: hextable_def)
  then have "\<And>i. i < 16 \<Longrightarrow> hextable ! i \<in> set hextable"
    by (metis nth_mem)
  then show ?thesis
    using high_nibble_less low_nibble_less by (auto simp: EncodeToString_def)
qed

lemma makeDaemonContainer_Args_eq:
  "Args (makeDaemonContainer objectStore) =
     [''-d'', ''--no-mon-config'', ''--nolockdep '',
      ''--id='' @ hash ''$(POD_NAME)'',
      ''--host=$(POD_NAME)'',
      ''--librados-sqlite-data-dir=/var/lib/ceph/radosgw/data'',
      ''--debug-rgw=15'']"
  by (simp add: makeDaemonContainer_def defaultDaemonFlag_def NewFlag_respell respell_def
        ContainerEnvVarReference_def podNameEnvVar_def objectStoreDataDirectory_def)

lemma makeDaemonContainer_not_empty: "makeDaemonContainer objectStore \<noteq> empty_Container"
  by (simp add: makeDaemonContainer_def empty_Container_def)

lemma makeRGWPodSpec_Inr: "\<exists>pod. makeRGWPodSpec objectStore = Inr pod"
  by (simp add: makeRGWPodSpec_def makeDaemonContainer_not_empty Let_def)

lemma reconcileService_mutateFunc_eq:
  "reconcileService_mutateFunc objectStore service =
     Inr (service\<lparr>Service.Spec :=
        \<lparr>Ports = [\<lparr>ServicePort.Name = ''http'', Protocol = ''TCP'', Port = 8080,
                   TargetPort = \<lparr>IntOrString.Type = 0, IntVal = 7480, StrVal = []\<rparr>\<rparr>],
         Selector = [(''object_store'', ObjectMeta.Name (ObjectStore.ObjectMeta objectStore))],
         ClusterIP = []\<rparr>\<rparr>)"
  by (simp add: reconcileService_mutateFunc_def addPort_def FromInt_def ProtocolTCP_def
        rgwPortInternalPort_def empty_ServiceSpec_def getLabels_def Let_def)


subsection \<open>Storage-claim convergence\<close>

text \<open>
  Claim C1. For every ObjectStore that carries a storage-claim template, \<open>createPVC\<close>
  makes one client call, the creation of a claim, and the spec of that claim is the
  template's spec with the access modes set to \<open>[ReadWriteOnce]\<close> and the volume mode
  set to \<open>Filesystem\<close>, whatever the template asked for: the selector, the resources
  (the size), the volume name, the storage class and the data source of the template
  pass through unchanged.
\<close>

theorem createPVC_forces_storage_parameters:
  assumes "VolumeClaimTemplate (ObjectStore.Spec objectStore) = Some template"
  shows "\<exists>pvc.
           calls (snd (createPVC r objectStore w)) =
             calls w @ [Create_call (PersistentVolumeClaim_object pvc)]
         \<and> store (snd (createPVC r objectStore w)) =
             snd (Create_PersistentVolumeClaim (Client r) pvc (store w))
         \<and> AccessModes (PersistentVolumeClaim.Spec pvc) = [ReadWriteOnce]
         \<and> VolumeMode (PersistentVolumeClaim.Spec pvc) = Some PersistentVolumeFilesystem
         \<and> PersistentVolumeClaim.Spec pvc =
             (PersistentVolumeClaim.Spec template)
               \<lparr>AccessModes := [ReadWriteOnce],
                VolumeMode := Some PersistentVolumeFilesystem\<rparr>
         \<and> Resources (PersistentVolumeClaim.Spec pvc) =
             Resources (PersistentVolumeClaim.Spec template)
         \<and> StorageClassName (PersistentVolumeClaim.Spec pvc) =
             StorageClassName (PersistentVolumeClaim.Spec template)
         \<and> PersistentVolumeClaimSpec.Selector (PersistentVolumeClaim.Spec pvc) =
             PersistentVolumeClaimSpec.Selector (PersistentVolumeClaim.Spec template)
         \<and> VolumeName (PersistentVolumeClaim.Spec pvc) =
             VolumeName (PersistentVolumeClaim.Spec template)
         \<and> DataSource (PersistentVolumeClaim.Spec pvc) =
             DataSource (PersistentVolumeClaim.Spec template)"
  using assms
  by (auto simp: createPVC_def invoke_def Let_def split: prod.splits sum.splits)

theorem createPVC_forces_storage_parameters_witness:
  "VolumeClaimTemplate (ObjectStore.Spec sample_ObjectStore) = Some sample_template
   \<and> AccessModes (PersistentVolumeClaim.Spec sample_template) = [''ReadWriteMany'']
   \<and> VolumeMode (PersistentVolumeClaim.Spec sample_template) = Some ''Block''
   \<and> (\<exists>pvc.
         calls (snd (createPVC (sample_Reconciler (Inr sample_ObjectStore))
                  sample_ObjectStore empty_world)) =
           [Create_call (PersistentVolumeClaim_object pvc)]
       \<and> PersistentVolumeClaim.Spec pvc =
           \<lparr>AccessModes = [''ReadWriteOnce''], Selector = None,
            Resources = [(''storage'', ''10Gi'')], VolumeName = [],
            StorageClassName = Some ''fast'', VolumeMode = Some ''Filesystem'',
            DataSource = None\<rparr>)"
proof -
  have h: "VolumeClaimTemplate (ObjectStore.Spec sample_ObjectStore) = Some sample_template"
    by (simp add: sample_ObjectStore_def)
  from createPVC_forces_storage_parameters [OF h,
      of "sample_Reconciler (Inr sample_ObjectStore)" empty_world]
  obtain pvc where
    "calls (snd (createPVC (sample_Reconciler (Inr sample_ObjectStore))
        sample_ObjectStore empty_world)) =
       calls empty_world @ [Create_call (PersistentVolumeClaim_object pvc)]"
    and "PersistentVolumeClaim.Spec pvc =
       (PersistentVolumeClaim.Spec sample_template)
         \<lparr>AccessModes := [ReadWriteOnce], VolumeMode := Some PersistentVolumeFilesystem\<rparr>"
    by blast
  then have
    "calls (snd (createPVC (sample_Reconciler (Inr sample_ObjectStore))
        sample_ObjectStore empty_world)) =
       [Create_call (PersistentVolumeClaim_object pvc)]
     \<and> PersistentVolumeClaim.Spec pvc =
         \<lparr>AccessModes = [''ReadWriteOnce''], Selector = None,
          Resources = [(''storage'', ''10Gi'')], VolumeName = [],
          StorageClassName = Some ''fast'', VolumeMode = Some ''Filesystem'',
          DataSource = None\<rparr>"
    by (simp add: empty_world_def sample_template_def ReadWriteOnce_def
          PersistentVolumeFilesystem_def)
  then have "\<exists>pvc.
       calls (snd (createPVC (sample_Reconciler (Inr sample_ObjectStore))
          sample_ObjectStore empty_world)) =
         [Create_call (PersistentVolumeClaim_object pvc)]
     \<and> PersistentVolumeClaim.Spec pvc =
         \<lparr>AccessModes = [''ReadWriteOnce''], Selector = None,
          Resources = [(''storage'', ''10Gi'')], VolumeName = [],
          StorageClassName = Some ''fast'', VolumeMode = Some ''Filesystem'',
          DataSource = None\<rparr>"
    by blast
  with h show ?thesis
    by (simp add: sample_template_def)
qed

subsection \<open>The stable hash and the \<open>--id\<close> flag\<close>

text \<open>
  Claim C2. The environment-variable reference built from \<open>POD_NAME\<close> is the literal
  string \<open>$(POD_NAME)\<close>. Its \<open>hash\<close> is the hex encoding of the first 16 bytes of
  the SHA-256 digest of these eleven bytes, which is the 32 characters
  \<open>3b5dd2b313abb4941d0de8ecdd7b2fb2\<close>; the hash of any string has 32 characters, all
  of them hex digits. For every ObjectStore the fourth argument of the daemon container
  is \<open>--id=\<close> followed by this constant: no pod name enters it.
\<close>

theorem hash_of_pod_name_reference:
  "ContainerEnvVarReference podNameEnvVar = ''$(POD_NAME)''
   \<and> hash ''$(POD_NAME)'' = EncodeToString (take 16 (Sum256 (bytes_of ''$(POD_NAME)'')))
   \<and> hash ''$(POD_NAME)'' = ''3b5dd2b313abb4941d0de8ecdd7b2fb2''
   \<and> length (hash s) = 32
   \<and> set (hash s) \<subseteq> set ''0123456789abcdef''
   \<and> Args (makeDaemonContainer objectStore) ! 3 =
        NewFlag ''id'' (hash (ContainerEnvVarReference podNameEnvVar))
   \<and> Args (makeDaemonContainer objectStore) ! 3 = ''--id=3b5dd2b313abb4941d0de8ecdd7b2fb2''"
proof -
  have ref: "ContainerEnvVarReference podNameEnvVar = ''$(POD_NAME)''"
    by (simp add: ContainerEnvVarReference_def podNameEnvVar_def)
  have unfolded:
    "hash ''$(POD_NAME)'' = EncodeToString (take 16 (Sum256 (bytes_of ''$(POD_NAME)'')))"
    by (simp add: hash_def Let_def)
  have len: "length (hash s) = 32"
    by (simp add: hash_def Let_def length_EncodeToString length_Sum256)
  have digits: "set (hash s) \<subseteq> set ''0123456789abcdef''"
    using EncodeToString_hextable [of "take 16 (Sum256 (bytes_of s))"]
    by (simp add: hash_def Let_def hextable_def)
  have flag: "NewFlag ''id'' v = ''--id='' @ v" for v
    by (simp add: NewFlag_respell respell_def)
  have arg: "Args (makeDaemonContainer objectStore) ! 3 = ''--id='' @ hash ''$(POD_NAME)''"
    by (simp add: makeDaemonContainer_Args_eq)
  show ?thesis
    using ref unfolded len digits arg
    by (simp add: flag hash_POD_NAME)
qed

subsection \<open>The entry of \<open>Reconcile\<close>\<close>

text \<open>
  Claim C3. When the fetch of the ObjectStore fails, \<open>Reconcile\<close> returns the empty
  result (no requeue) after the one read call and without any mutation call: with no
  error when the failure is not-found, and with the failure wrapped in
  \<open>failed to get ObjectStore\<close> otherwise.
\<close>

theorem Reconcile_fetch_failure:
  assumes "fst (Get_ObjectStore (Client r) (NamespacedName req) (store w)) = Inl err"
  shows "fst (Reconcile gv r req w) =
           Returns (\<lparr>Requeue = False, RequeueAfter = 0\<rparr>,
              if err = NotFound then None
              else Some (Wrapf ''failed to get ObjectStore: %w'' [] (StatusError err)))
         \<and> snd (snd (Reconcile gv r req w)) =
             \<lparr>store = snd (Get_ObjectStore (Client r) (NamespacedName req) (store w)),
              calls = calls w @ [Get_call ObjectStore_type (NamespacedName req)]\<rparr>
         \<and> filter is_mutation (calls (snd (snd (Reconcile gv r req w)))) =
             filter is_mutation (calls w)"
  using assms
  by (auto simp: Reconcile_def invoke_def IsNotFound_def Let_def empty_Result_def
           split: prod.splits sum.splits)

theorem Reconcile_fetch_failure_witness:
  "fst (Get_ObjectStore (Client (sample_Reconciler (Inl NotFound)))
          (NamespacedName sample_Request) (store empty_world)) = Inl NotFound
   \<and> fst (Reconcile sample_GroupVersion (sample_Reconciler (Inl NotFound)) sample_Request
        empty_world) = Returns (\<lparr>Requeue = False, RequeueAfter = 0\<rparr>, None)
   \<and> calls (snd (snd (Reconcile sample_GroupVersion (sample_Reconciler (Inl NotFound))
        sample_Request empty_world))) =
       [Get_call ObjectStore_type
          \<lparr>NamespacedName.Namespace = ''default'', Name = ''store''\<rparr>]
   \<and> fst (Get_ObjectStore (Client (sample_Reconciler (Inl (OtherReason ''timeout''))))
          (NamespacedName sample_Request) (store empty_world)) = Inl (OtherReason ''timeout'')
   \<and> fst (Reconcile sample_GroupVersion (sample_Reconciler (Inl (OtherReason ''timeout'')))
        sample_Request empty_world) =
       Returns (\<lparr>Requeue = False, RequeueAfter = 0\<rparr>,
          Some (Wrapf ''failed to get ObjectStore: %w'' []
                  (StatusError (OtherReason ''timeout''))))
   \<and> calls (snd (snd (Reconcile sample_GroupVersion
        (sample_Reconciler (Inl (OtherReason ''timeout''))) sample_Request empty_world))) =
       [Get_call ObjectStore_type
          \<lparr>NamespacedName.Namespace = ''default'', Name = ''store''\<rparr>]"
proof -
  have h1: "fst (Get_ObjectStore (Client (sample_Reconciler (Inl NotFound)))
          (NamespacedName sample_Request) (store empty_world)) = Inl NotFound"
    by (simp add: sample_Reconciler_def sample_Client_def)
  have h2: "fst (Get_ObjectStore (Client (sample_Reconciler (Inl (OtherReason ''timeout''))))
          (NamespacedName sample_Request) (store empty_world)) = Inl (OtherReason ''timeout'')"
    by (simp add: sample_Reconciler_def sample_Client_def)
  show ?thesis
    using h1 h2 Reconcile_fetch_failure [OF h1, of sample_GroupVersion]
      Reconcile_fetch_failure [OF h2, of sample_GroupVersion]
    by (simp add: sample_Request_def empty_world_def)
qed

text \<open>
  The deletion branch for every client: when the fetched ObjectStore has its deletion
  timestamp set, \<open>Reconcile\<close> takes the finalizer token out of the object it holds
  in memory and returns the empty result with no error. Its one client call is the
  fetch: the store is as the fetch left it, and no update, patch or delete is issued.
\<close>

lemma Reconcile_deletion_no_write:
  assumes "fst (Get_ObjectStore (Client r) (NamespacedName req) (store w)) = Inr obj"
    and "\<not> Time_IsZero (DeletionTimestamp (ObjectStore.ObjectMeta obj))"
  shows "Reconcile gv r req w =
           (Returns (\<lparr>Requeue = False, RequeueAfter = 0\<rparr>, None),
            obj\<lparr>ObjectStore.ObjectMeta := (ObjectStore.ObjectMeta obj)
               \<lparr>Finalizers :=
                  filter (\<lambda>e. e \<noteq> buildFinalizerName gv (TypeMeta.Kind (ObjectStore.TypeMeta obj)))
                    (Finalizers (ObjectStore.ObjectMeta obj))\<rparr>\<rparr>,
            \<lparr>store = snd (Get_ObjectStore (Client r) (NamespacedName req) (store w)),
             calls = calls w @ [Get_call ObjectStore_type (NamespacedName req)]\<rparr>)"
  using assms
  by (auto simp: Reconcile_def invoke_def Let_def RemoveFinalizer_def empty_Result_def
           split: prod.splits sum.splits)

text \<open>
  Claim C4, evaluated. The store holds the sample ObjectStore with its deletion
  timestamp set and the finalizer token \<open>objectstore.object.rook-s3-nano/v1alpha1\<close>
  in its finalizer list. \<open>Reconcile\<close> returns the empty result with no error, and
  its only client call is the fetch, so no delete and no other mutation is issued. The
  token is gone from the object that \<open>Reconcile\<close> held in memory, which it drops on
  return; the object in the store is the one from before the call and still carries the
  token, and the next fetch returns it with the token.
\<close>

theorem Reconcile_deletion_keeps_stored_finalizer:
  "fst (Reconcile sample_GroupVersion stored_Reconciler sample_Request deleting_world) =
     Returns (\<lparr>Requeue = False, RequeueAfter = 0\<rparr>, None)
   \<and> calls (snd (snd (Reconcile sample_GroupVersion stored_Reconciler sample_Request
        deleting_world))) =
       [Get_call ObjectStore_type
          \<lparr>NamespacedName.Namespace = ''default'', Name = ''store''\<rparr>]
   \<and> buildFinalizerName sample_GroupVersion
        (TypeMeta.Kind (ObjectStore.TypeMeta deleting_ObjectStore)) =
       ''objectstore.object.rook-s3-nano/v1alpha1''
   \<and> Finalizers (ObjectStore.ObjectMeta
        (fst (snd (Reconcile sample_GroupVersion stored_Reconciler sample_Request
           deleting_world)))) = [''other'']
   \<and> store (snd (snd (Reconcile sample_GroupVersion stored_Reconciler sample_Request
        deleting_world))) = Some deleting_ObjectStore
   \<and> Finalizers (ObjectStore.ObjectMeta deleting_ObjectStore) =
       [''objectstore.object.rook-s3-nano/v1alpha1'', ''other'']
   \<and> fst (Get_ObjectStore (Client stored_Reconciler) (NamespacedName sample_Request)
        (store (snd (snd (Reconcile sample_GroupVersion stored_Reconciler sample_Request
           deleting_world))))) = Inr deleting_ObjectStore"
proof -
  have fetched: "Get_ObjectStore (Client stored_Reconciler) (NamespacedName sample_Request)
      (store deleting_world) = (Inr deleting_ObjectStore, Some deleting_ObjectStore)"
    by (simp add: stored_Reconciler_def stored_Client_def deleting_world_def
          deleting_ObjectStore_def sample_ObjectStore_def sample_Request_def
          ObjectKeyFromMeta_def empty_ObjectMeta_def)
  then have h1: "fst (Get_ObjectStore (Client stored_Reconciler)
      (NamespacedName sample_Request) (store deleting_world)) = Inr deleting_ObjectStore"
    by simp
  have h2: "\<not> Time_IsZero (DeletionTimestamp (ObjectStore.ObjectMeta deleting_ObjectStore))"
    by (simp add: deleting_ObjectStore_def Time_IsZero_def)
  have name: "buildFinalizerName sample_GroupVersion ''ObjectStore'' =
      ''objectstore.object.rook-s3-nano/v1alpha1''"
    by code_simp
  have kind: "TypeMeta.Kind (ObjectStore.TypeMeta deleting_ObjectStore) = ''ObjectStore''"
    by (simp add: deleting_ObjectStore_def sample_ObjectStore_def)
  have fin: "Finalizers (ObjectStore.ObjectMeta deleting_ObjectStore) =
      [''objectstore.object.rook-s3-nano/v1alpha1'', ''other'']"
    by (simp add: deleting_ObjectStore_def)
  have stored: "store deleting_world = Some deleting_ObjectStore"
    and no_calls: "calls deleting_world = []"
    by (simp_all add: deleting_world_def)
  have run: "Reconcile sample_GroupVersion stored_Reconciler sample_Request deleting_world =
      (Returns (\<lparr>Requeue = False, RequeueAfter = 0\<rparr>, None),
       deleting_ObjectStore\<lparr>ObjectStore.ObjectMeta :=
         (ObjectStore.ObjectMeta deleting_ObjectStore)\<lparr>Finalizers := [''other'']\<rparr>\<rparr>,
       \<lparr>store = Some deleting_ObjectStore,
        calls = [Get_call ObjectStore_type (NamespacedName sample_Request)]\<rparr>)"
    using Reconcile_deletion_no_write [OF h1 h2, of sample_GroupVersion]
    by (simp add: kind name fin fetched no_calls)
  have req: "NamespacedName sample_Request =
      \<lparr>NamespacedName.Namespace = ''default'', Name = ''store''\<rparr>"
    by (simp add: sample_Request_def)
  show ?thesis
    using fetched by (simp add: run kind name fin stored req)
qed


subsection \<open>The finalizer name\<close>

text \<open>
  Claim C5, as the code has it. For every kind, \<open>buildFinalizerName\<close> is the
  lowercased kind, a dot, and the printed form of the package's \<open>GroupVersion\<close>: the
  group, a slash and the version when the group is not empty (the version alone
  otherwise). The suffix is the group and version, not the group alone.
\<close>

theorem buildFinalizerName_group_version:
  "buildFinalizerName gv kind =
     ToLower kind @ ''.'' @
       (if Group gv = [] then Version gv else Group gv @ ''/'' @ Version gv)"
  by (simp add: buildFinalizerName_def GroupVersion_String_def)

text \<open>
  With the group \<open>object.rook-s3-nano\<close> and the version \<open>v1alpha1\<close> of the custom
  resource definition, the finalizer name of the kind \<open>ObjectStore\<close> is not the
  lowercased kind, a dot and the group.
\<close>

theorem buildFinalizerName_counterexample:
  "buildFinalizerName \<lparr>Group = ''object.rook-s3-nano'', Version = ''v1alpha1''\<rparr> ''ObjectStore''
     = ''objectstore.object.rook-s3-nano/v1alpha1''
   \<and> buildFinalizerName \<lparr>Group = ''object.rook-s3-nano'', Version = ''v1alpha1''\<rparr> ''ObjectStore''
     \<noteq> ToLower ''ObjectStore'' @ ''.'' @
         Group \<lparr>Group = ''object.rook-s3-nano'', Version = ''v1alpha1''\<rparr>
   \<and> ToLower ''ObjectStore'' @ ''.'' @
         Group \<lparr>Group = ''object.rook-s3-nano'', Version = ''v1alpha1''\<rparr>
     = ''objectstore.object.rook-s3-nano''"
  by code_simp

subsection \<open>Flags\<close>

text \<open>
  Claim C6. For every key and value, the space-separated, the hyphen-separated and the
  underscore-separated spelling of the key give the same flag as the key itself: two
  hyphens, the key with every separator written as a hyphen, an equals sign, the value.
  In particular \<open>NewFlag "debug rgw" "15"\<close> is \<open>--debug-rgw=15\<close>, and
  \<open>some-config-key\<close>, \<open>some_config_key\<close> and \<open>some config key\<close> with value
  \<open>x\<close> all give \<open>--some-config-key=x\<close>.
\<close>

theorem NewFlag_spellings:
  "NewFlag (respell (CHR '' '') key) val = NewFlag (respell (CHR ''-'') key) val
   \<and> NewFlag (respell (CHR ''-'') key) val = NewFlag (respell (CHR ''_'') key) val
   \<and> NewFlag (respell (CHR ''_'') key) val = NewFlag key val
   \<and> NewFlag key val = ''--'' @ respell (CHR ''-'') key @ ''='' @ val
   \<and> NewFlag ''debug rgw'' ''15'' = ''--debug-rgw=15''
   \<and> NewFlag ''some-config-key'' ''x'' = ''--some-config-key=x''
   \<and> NewFlag ''some_config_key'' ''x'' = ''--some-config-key=x''
   \<and> NewFlag ''some config key'' ''x'' = ''--some-config-key=x''"
proof -
  have "NewFlag (respell sep key) val = NewFlag key val"
    if "sep = CHR '' '' \<or> sep = CHR ''-'' \<or> sep = CHR ''_''" for sep
    using that by (simp add: NewFlag_respell respell_respell)
  then have "NewFlag (respell (CHR '' '') key) val = NewFlag key val"
    and "NewFlag (respell (CHR ''-'') key) val = NewFlag key val"
    and "NewFlag (respell (CHR ''_'') key) val = NewFlag key val"
    by simp_all
  moreover have "NewFlag ''debug rgw'' ''15'' = ''--debug-rgw=15''"
    and "NewFlag ''some-config-key'' ''x'' = ''--some-config-key=x''"
    and "NewFlag ''some_config_key'' ''x'' = ''--some-config-key=x''"
    and "NewFlag ''some config key'' ''x'' = ''--some-config-key=x''"
    by (simp_all add: NewFlag_respell respell_def)
  ultimately show ?thesis
    by (simp add: NewFlag_respell)
qed

subsection \<open>The daemon container\<close>

text \<open>
  Claim C7, evaluated. For every ObjectStore the command of the daemon container is
  \<open>radosgw-sqlite\<close> and its seven arguments are the ones listed here. The third one
  is \<open>--nolockdep\<close> followed by a space, so the argument list is not the list with
  the flag \<open>--nolockdep\<close>.
\<close>

theorem makeDaemonContainer_arguments:
  "Command (makeDaemonContainer objectStore) = [''radosgw-sqlite'']
   \<and> Args (makeDaemonContainer objectStore) =
       [''-d'', ''--no-mon-config'', ''--nolockdep '',
        ''--id=3b5dd2b313abb4941d0de8ecdd7b2fb2'',
        ''--host=$(POD_NAME)'',
        ''--librados-sqlite-data-dir=/var/lib/ceph/radosgw/data'',
        ''--debug-rgw=15'']
   \<and> Args (makeDaemonContainer objectStore) \<noteq>
       [''-d'', ''--no-mon-config'', ''--nolockdep'',
        ''--id=3b5dd2b313abb4941d0de8ecdd7b2fb2'',
        ''--host=$(POD_NAME)'',
        ''--librados-sqlite-data-dir=/var/lib/ceph/radosgw/data'',
        ''--debug-rgw=15'']
   \<and> Args (makeDaemonContainer objectStore) ! 2 = ''--nolockdep ''"
  by (simp add: makeDaemonContainer_Args_eq hash_POD_NAME)
    (simp add: makeDaemonContainer_def)


subsection \<open>The service\<close>

text \<open>
  Claim C8, as the code has it. \<open>addPort\<close> adds a port entry only when both the
  external and the internal port are non-zero, and then exactly one TCP entry that maps
  the external port to the internal port. The service-convergence step calls it with
  the constants 8080 and 7480 and never reads the ObjectStore's gateway port: for every
  ObjectStore, whatever its gateway port (zero included), the mutated service has
  exactly the one TCP entry from 8080 to 7480, and so has every service that
  \<open>reconcileService\<close> creates or updates.
\<close>

theorem service_port_entry:
  "Ports (Service.Spec (addPort service name port destPort)) =
     (if port = 0 \<or> destPort = 0 then Ports (Service.Spec service)
      else Ports (Service.Spec service) @
        [\<lparr>ServicePort.Name = name, Protocol = ProtocolTCP, Port = port,
          TargetPort = \<lparr>IntOrString.Type = 0, IntVal = destPort, StrVal = []\<rparr>\<rparr>])
   \<and> (\<exists>converged.
         reconcileService_mutateFunc objectStore service = Inr converged
       \<and> Ports (Service.Spec converged) =
           [\<lparr>ServicePort.Name = ''http'', Protocol = ''TCP'', Port = 8080,
             TargetPort = \<lparr>IntOrString.Type = 0, IntVal = 7480, StrVal = []\<rparr>\<rparr>])
   \<and> list_all
        (\<lambda>c. case c of
           Get_call t key \<Rightarrow> True
         | Create_call (Service_object s) \<Rightarrow>
             Ports (Service.Spec s) =
               [\<lparr>ServicePort.Name = ''http'', Protocol = ''TCP'', Port = 8080,
                 TargetPort = \<lparr>IntOrString.Type = 0, IntVal = 7480, StrVal = []\<rparr>\<rparr>]
         | Update_call (Service_object s) \<Rightarrow>
             Ports (Service.Spec s) =
               [\<lparr>ServicePort.Name = ''http'', Protocol = ''TCP'', Port = 8080,
                 TargetPort = \<lparr>IntOrString.Type = 0, IntVal = 7480, StrVal = []\<rparr>\<rparr>]
         | _ \<Rightarrow> False)
        (drop (length (calls w)) (calls (snd (reconcileService r objectStore w))))"
proof -
  have port_rule:
    "Ports (Service.Spec (addPort service name port destPort)) =
       (if port = 0 \<or> destPort = 0 then Ports (Service.Spec service)
        else Ports (Service.Spec service) @
          [\<lparr>ServicePort.Name = name, Protocol = ProtocolTCP, Port = port,
            TargetPort = \<lparr>IntOrString.Type = 0, IntVal = destPort, StrVal = []\<rparr>\<rparr>])"
    by (simp add: addPort_def FromInt_def)
  have written:
    "list_all
        (\<lambda>c. case c of
           Get_call t key \<Rightarrow> True
         | Create_call (Service_object s) \<Rightarrow>
             Ports (Service.Spec s) =
               [\<lparr>ServicePort.Name = ''http'', Protocol = ''TCP'', Port = 8080,
                 TargetPort = \<lparr>IntOrString.Type = 0, IntVal = 7480, StrVal = []\<rparr>\<rparr>]
         | Update_call (Service_object s) \<Rightarrow>
             Ports (Service.Spec s) =
               [\<lparr>ServicePort.Name = ''http'', Protocol = ''TCP'', Port = 8080,
                 TargetPort = \<lparr>IntOrString.Type = 0, IntVal = 7480, StrVal = []\<rparr>\<rparr>]
         | _ \<Rightarrow> False)
        (drop (length (calls w)) (calls (snd (reconcileService r objectStore w))))"
    by (auto simp: reconcileService_def CreateOrUpdate_def mutate_def
          reconcileService_mutateFunc_eq invoke_def Let_def
          split: sum.splits prod.splits option.splits if_splits)
  show ?thesis
    using port_rule written by (simp add: reconcileService_mutateFunc_eq)
qed

text \<open>
  The sample ObjectStore has gateway port zero; the service that its convergence step
  creates has a port entry.
\<close>

theorem gatewayPort_zero_counterexample:
  "GatewaySpec.Port (Gateway (ObjectStore.Spec sample_ObjectStore)) = 0
   \<and> calls (snd (reconcileService (sample_Reconciler (Inr sample_ObjectStore))
        sample_ObjectStore empty_world)) =
       [Get_call Service_type
          \<lparr>NamespacedName.Namespace = ''default'', Name = ''rgw-store-default''\<rparr>,
        Create_call (Service_object
          \<lparr>Service.ObjectMeta =
             \<lparr>ObjectMeta.Name = ''rgw-store-default'', Namespace = ''default'', UID = [],
              Labels = [(''object_store'', ''store'')], DeletionTimestamp = None,
              Finalizers = [],
              OwnerReferences =
                [\<lparr>OwnerReference.APIVersion = ''object.rook-s3-nano/v1alpha1'',
                  Kind = ''ObjectStore'', Name = ''store'', UID = [],
                  Controller = True, BlockOwnerDeletion = True\<rparr>]\<rparr>,
           Spec =
             \<lparr>Ports =
                [\<lparr>ServicePort.Name = ''http'', Protocol = ''TCP'', Port = 8080,
                  TargetPort = \<lparr>IntOrString.Type = 0, IntVal = 7480, StrVal = []\<rparr>\<rparr>],
              Selector = [(''object_store'', ''store'')],
              ClusterIP = []\<rparr>\<rparr>)]
   \<and> (case reconcileService_mutateFunc sample_ObjectStore (generateService sample_ObjectStore)
       of Inl err \<Rightarrow> [] | Inr converged \<Rightarrow> Ports (Service.Spec converged)) \<noteq> []"
  by (simp add: reconcileService_def CreateOrUpdate_def mutate_def
        reconcileService_mutateFunc_eq invoke_def Let_def IsNotFound_def
        sample_Reconciler_def sample_Client_def sample_ObjectStore_def empty_world_def
        generateService_def ObjectKeyFromMeta_def empty_ObjectMeta_def instanceName_def
        appName_def getLabels_def empty_ServiceSpec_def)

subsection \<open>Idempotence of the mutation functions\<close>

text \<open>
  Claim C9. The mutation function of the service step and the mutation function of the
  deployment step succeed on every object, and running either of them again on its own
  result returns that result. Each of them sets the whole spec: the spec of the result
  is the same whatever object the function is run on, and the service's port list has
  one entry after any number of runs.
\<close>

theorem mutation_functions_idempotent:
  "(\<exists>s'. reconcileService_mutateFunc objectStore service = Inr s'
        \<and> reconcileService_mutateFunc objectStore s' = Inr s'
        \<and> length (Ports (Service.Spec s')) = 1
        \<and> (\<exists>s2'. reconcileService_mutateFunc objectStore service2 = Inr s2'
              \<and> Service.Spec s2' = Service.Spec s'))
   \<and> (\<exists>d'. createOrUpdateDeployment_mutateFunc objectStore deploy = Inr d'
        \<and> createOrUpdateDeployment_mutateFunc objectStore d' = Inr d'
        \<and> (\<exists>d2'. createOrUpdateDeployment_mutateFunc objectStore deploy2 = Inr d2'
              \<and> Deployment.Spec d2' = Deployment.Spec d'))"
proof -
  obtain pod where pod: "makeRGWPodSpec objectStore = Inr pod"
    using makeRGWPodSpec_Inr by blast
  have service: "\<exists>s'. reconcileService_mutateFunc objectStore service = Inr s'
        \<and> reconcileService_mutateFunc objectStore s' = Inr s'
        \<and> length (Ports (Service.Spec s')) = 1
        \<and> (\<exists>s2'. reconcileService_mutateFunc objectStore service2 = Inr s2'
              \<and> Service.Spec s2' = Service.Spec s')"
    by (simp add: reconcileService_mutateFunc_eq)
  have deployment: "\<exists>d'. createOrUpdateDeployment_mutateFunc objectStore deploy = Inr d'
        \<and> createOrUpdateDeployment_mutateFunc objectStore d' = Inr d'
        \<and> (\<exists>d2'. createOrUpdateDeployment_mutateFunc objectStore deploy2 = Inr d2'
              \<and> Deployment.Spec d2' = Deployment.Spec d')"
    using pod by (simp add: createOrUpdateDeployment_mutateFunc_def Let_def)
  from service deployment show ?thesis
    by blast
qed

subsection \<open>The pod template\<close>

text \<open>
  Claim C10. For every ObjectStore, also one whose image is the empty string, the
  daemon container has the name \<open>rgw\<close> and differs from the empty container, so
  \<open>makeRGWPodSpec\<close> never returns its error and always returns a pod template, whose
  one container is the daemon container.
\<close>

theorem makeRGWPodSpec_always_succeeds:
  "Container.Name (makeDaemonContainer objectStore) = ''rgw''
   \<and> makeDaemonContainer objectStore \<noteq> empty_Container
   \<and> makeDaemonContainer
        (objectStore\<lparr>ObjectStore.Spec :=
           (ObjectStore.Spec objectStore)\<lparr>ObjectStoreSpec.Image := []\<rparr>\<rparr>) \<noteq> empty_Container
   \<and> makeRGWPodSpec objectStore \<noteq> Inl (Errorf ''got empty container for RGW daemon'' [])
   \<and> (\<exists>pod. makeRGWPodSpec objectStore = Inr pod
         \<and> Containers (PodTemplateSpec.Spec pod) = [makeDaemonContainer objectStore])"
proof -
  have name: "Container.Name (makeDaemonContainer os) = ''rgw''" for os
    by (simp add: makeDaemonContainer_def)
  have differs: "makeDaemonContainer os \<noteq> empty_Container" for os
    using name [of os] by (auto simp: empty_Container_def)
  have "\<exists>pod. makeRGWPodSpec objectStore = Inr pod
         \<and> Containers (PodTemplateSpec.Spec pod) = [makeDaemonContainer objectStore]"
    by (simp add: makeRGWPodSpec_def differs Let_def)
  then show ?thesis
    using name differs by auto
qed


end
